theory Spec2Isabelle
  imports Complex_Main "HOL-Library.Multiset" "HOL-Library.Product_Lexorder"
begin

section \<open>JavaScript numbers\<close>

text \<open>
  The tax engine (\<^verbatim>\<open>lib/taxEngine.ts\<close>) computes on JavaScript numbers, which are
  IEEE 754 doubles. A number is modelled as a real, one of the two infinities, or
  \<^verbatim>\<open>NaN\<close>. The special values follow IEEE 754 as JavaScript defines them, since
  the source relies on them: \<^verbatim>\<open>x || 0\<close>, \<^verbatim>\<open>isFinite\<close>,
  \<^verbatim>\<open>Number.POSITIVE_INFINITY\<close> as the missing cap and the missing bracket
  maximum.

  Arithmetic on finite values is exact in the model, and there is a single zero. The
  source rounds every sum, difference, product and quotient to the nearest double, and a
  result too large for a double becomes an infinity. The worked example (C1) gives the
  exact values, which the doubles match up to rounding. Every other claim is stated so
  that it is true of the rounded arithmetic as well: none concludes that a finite sum or
  product stays finite or is exact, and where a hypothesis is there to keep rounding or
  overflow out, the text of the claim says so.
\<close>

datatype number = NaN | NegInf | Fin real | PosInf

fun js_add :: "number \<Rightarrow> number \<Rightarrow> number" where
  "js_add NaN _ = NaN"
| "js_add _ NaN = NaN"
| "js_add PosInf NegInf = NaN"
| "js_add NegInf PosInf = NaN"
| "js_add PosInf _ = PosInf"
| "js_add _ PosInf = PosInf"
| "js_add NegInf _ = NegInf"
| "js_add _ NegInf = NegInf"
| "js_add (Fin x) (Fin y) = Fin (x + y)"

fun js_neg :: "number \<Rightarrow> number" where
  "js_neg NaN = NaN"
| "js_neg NegInf = PosInf"
| "js_neg PosInf = NegInf"
| "js_neg (Fin x) = Fin (- x)"

definition js_sub :: "number \<Rightarrow> number \<Rightarrow> number" where
  "js_sub a b = js_add a (js_neg b)"

text \<open>The sign of a non-zero real, as an infinity; \<open>flip\<close> negates it.\<close>

definition signed_inf :: "bool \<Rightarrow> real \<Rightarrow> number" where
  "signed_inf flip x = (if (0 < x) \<noteq> flip then PosInf else NegInf)"

fun js_mul :: "number \<Rightarrow> number \<Rightarrow> number" where
  "js_mul NaN _ = NaN"
| "js_mul _ NaN = NaN"
| "js_mul (Fin x) (Fin y) = Fin (x * y)"
| "js_mul PosInf (Fin y) = (if y = 0 then NaN else signed_inf False y)"
| "js_mul NegInf (Fin y) = (if y = 0 then NaN else signed_inf True y)"
| "js_mul (Fin x) PosInf = (if x = 0 then NaN else signed_inf False x)"
| "js_mul (Fin x) NegInf = (if x = 0 then NaN else signed_inf True x)"
| "js_mul PosInf PosInf = PosInf"
| "js_mul NegInf NegInf = PosInf"
| "js_mul PosInf NegInf = NegInf"
| "js_mul NegInf PosInf = NegInf"

text \<open>
  Division. The function only ever divides by the literal 100 and by a gross income that
  it has tested to be positive; the other cases are given for completeness, with the
  divisor zero read as \<open>+0\<close>.
\<close>

fun js_div :: "number \<Rightarrow> number \<Rightarrow> number" where
  "js_div NaN _ = NaN"
| "js_div _ NaN = NaN"
| "js_div (Fin x) (Fin y) =
     (if y \<noteq> 0 then Fin (x / y) else if x = 0 then NaN else signed_inf False x)"
| "js_div (Fin x) PosInf = Fin 0"
| "js_div (Fin x) NegInf = Fin 0"
| "js_div PosInf (Fin y) = (if 0 \<le> y then PosInf else NegInf)"
| "js_div NegInf (Fin y) = (if 0 \<le> y then NegInf else PosInf)"
| "js_div _ _ = NaN"

text \<open>\<^verbatim>\<open>a < b\<close>, \<^verbatim>\<open>a > b\<close>, \<^verbatim>\<open>a <= b\<close>: false as soon as one side is NaN.\<close>

fun js_lt :: "number \<Rightarrow> number \<Rightarrow> bool" where
  "js_lt NaN _ = False"
| "js_lt _ NaN = False"
| "js_lt _ NegInf = False"
| "js_lt NegInf _ = True"
| "js_lt PosInf _ = False"
| "js_lt (Fin x) PosInf = True"
| "js_lt (Fin x) (Fin y) = (x < y)"

definition js_gt :: "number \<Rightarrow> number \<Rightarrow> bool" where
  "js_gt a b = js_lt b a"

definition js_le :: "number \<Rightarrow> number \<Rightarrow> bool" where
  "js_le a b = (a \<noteq> NaN \<and> b \<noteq> NaN \<and> \<not> js_lt b a)"

text \<open>\<^verbatim>\<open>Math.min(a, b)\<close> and \<^verbatim>\<open>Math.max(a, b)\<close>: NaN if an argument is NaN.\<close>

definition Math_min :: "number \<Rightarrow> number \<Rightarrow> number" where
  "Math_min a b = (if a = NaN \<or> b = NaN then NaN else if js_lt b a then b else a)"

definition Math_max :: "number \<Rightarrow> number \<Rightarrow> number" where
  "Math_max a b = (if a = NaN \<or> b = NaN then NaN else if js_lt a b then b else a)"

fun isFinite :: "number \<Rightarrow> bool" where
  "isFinite (Fin x) = True"
| "isFinite _ = False"

text \<open>
  \<^verbatim>\<open>x || 0\<close> on a number: the falsy numbers are \<open>0\<close> and NaN. On a field that
  may be absent (\<^verbatim>\<open>undefined\<close> or \<^verbatim>\<open>null\<close>, modelled as \<open>None\<close>), absence is
  falsy too.
  \<^verbatim>\<open>x ?? Number.POSITIVE_INFINITY\<close> replaces only an absent (or null) value.
\<close>

definition or_zero :: "number \<Rightarrow> number" where
  "or_zero x = (if x = NaN \<or> x = Fin 0 then Fin 0 else x)"

definition field_or_zero :: "number option \<Rightarrow> number" where
  "field_or_zero f = (case f of None \<Rightarrow> Fin 0 | Some x \<Rightarrow> or_zero x)"

definition or_infinity :: "number option \<Rightarrow> number" where
  "or_infinity f = (case f of None \<Rightarrow> PosInf | Some x \<Rightarrow> x)"

text \<open>\<^verbatim>\<open>input.grossIncome > 0\<close> on the raw field: \<^verbatim>\<open>undefined > 0\<close> is false.\<close>

definition field_gt_zero :: "number option \<Rightarrow> bool" where
  "field_gt_zero f = (case f of None \<Rightarrow> False | Some x \<Rightarrow> js_gt x (Fin 0))"

section \<open>Data model\<close>

text \<open>
  The interfaces of the source. \<^verbatim>\<open>income_bracket_max\<close> is
  \<^verbatim>\<open>number | null\<close>, and the two pension fields are optional. The three other
  numeric fields of the input are declared \<^verbatim>\<open>number\<close>, but the function guards
  each read of them with \<^verbatim>\<open>|| 0\<close>, so they are modelled as possibly absent as
  well. An entry of the breakdown is the bracket's three fields and two more.
\<close>

record TaxBracket =
  income_bracket_min :: number
  income_bracket_max :: "number option"
  tax_rate :: number

record BreakdownEntry = TaxBracket +
  taxable_at_this_bracket :: number
  tax_at_this_bracket :: number

record TaxComputationInput =
  grossIncome :: "number option"
  additionalDeductions :: "number option"
  standardDeduction :: "number option"
  brackets :: "TaxBracket list"
  statutoryPensionRatePercent :: "number option"
  statutoryPensionAnnualCap :: "number option"

record TaxComputationResult =
  deductions :: number
  taxableIncome :: number
  taxOwed :: number
  effectiveRate :: number
  marginalRate :: number
  statutoryPension :: number
  breakdown :: "BreakdownEntry list"
  deductionsCapped :: bool
  uncappedDeductions :: number

section \<open>Sorting the brackets\<close>

text \<open>
  \<^verbatim>\<open>[...input.brackets].sort((a, b) => a.income_bracket_min - b.income_bracket_min)\<close>.
  \<^verbatim>\<open>Array.prototype.sort\<close> is stable; the comparator's result puts \<open>a\<close> after
  \<open>b\<close> when it is positive, and a NaN result counts as \<open>0\<close>. The model is the stable
  insertion sort under that comparator. Whenever no minimum is NaN the comparator is a
  consistent ordering, and the stable sorted order is the only result the language
  allows; with a NaN minimum the language leaves the order to the engine.
\<close>

definition compare_min :: "TaxBracket \<Rightarrow> TaxBracket \<Rightarrow> number" where
  "compare_min a b = js_sub (income_bracket_min a) (income_bracket_min b)"

fun sort_insert :: "('a \<Rightarrow> 'a \<Rightarrow> number) \<Rightarrow> 'a \<Rightarrow> 'a list \<Rightarrow> 'a list" where
  "sort_insert cmp x [] = [x]"
| "sort_insert cmp x (y # ys) =
     (if js_gt (cmp x y) (Fin 0) then y # sort_insert cmp x ys else x # y # ys)"

definition js_sort :: "('a \<Rightarrow> 'a \<Rightarrow> number) \<Rightarrow> 'a list \<Rightarrow> 'a list" where
  "js_sort cmp xs = foldr (sort_insert cmp) xs []"

section \<open>The progressive tax computation\<close>

text \<open>The three variables the loop over the sorted brackets updates.\<close>

record loop_vars =
  v_taxOwed :: number
  v_marginalRate :: number
  v_breakdown :: "BreakdownEntry list"

text \<open>The slice of the taxable income that falls into a bracket (source line 61).\<close>

definition taxableAtThisBracket :: "number \<Rightarrow> TaxBracket \<Rightarrow> number" where
  "taxableAtThisBracket taxable b =
     (let bracketMin = income_bracket_min b;
          bracketMax = or_infinity (income_bracket_max b)
      in Math_min (js_sub taxable bracketMin) (js_sub bracketMax bracketMin))"

text \<open>The two tests a bracket passes to be taxed (source lines 60 and 62).\<close>

definition bracket_taxed :: "number \<Rightarrow> TaxBracket \<Rightarrow> bool" where
  "bracket_taxed taxable b =
     (js_gt taxable (income_bracket_min b) \<and> js_gt (taxableAtThisBracket taxable b) (Fin 0))"

text \<open>One iteration of the loop (source lines 58 to 73).\<close>

definition bracket_step :: "number \<Rightarrow> TaxBracket \<Rightarrow> loop_vars \<Rightarrow> loop_vars" where
  "bracket_step taxable b v =
     (if bracket_taxed taxable b then
        (let slice = taxableAtThisBracket taxable b;
             tax = js_mul slice (js_div (tax_rate b) (Fin 100))
         in \<lparr> v_taxOwed = js_add (v_taxOwed v) tax,
              v_marginalRate = tax_rate b,
              v_breakdown = v_breakdown v @
                [\<lparr> income_bracket_min = income_bracket_min b,
                    income_bracket_max = income_bracket_max b,
                    tax_rate = tax_rate b,
                    taxable_at_this_bracket = slice,
                    tax_at_this_bracket = tax \<rparr>] \<rparr>)
      else v)"

fun bracket_loop :: "number \<Rightarrow> TaxBracket list \<Rightarrow> loop_vars \<Rightarrow> loop_vars" where
  "bracket_loop taxable [] v = v"
| "bracket_loop taxable (b # bs) v = bracket_loop taxable bs (bracket_step taxable b v)"

definition loop_init :: loop_vars where
  "loop_init = \<lparr> v_taxOwed = Fin 0, v_marginalRate = Fin 0, v_breakdown = [] \<rparr>"

text \<open>The deduction part (source lines 36 to 48), one definition per constant.\<close>

definition pension_of :: "TaxComputationInput \<Rightarrow> number" where
  "pension_of input =
     (let pensionRate = js_div (field_or_zero (statutoryPensionRatePercent input)) (Fin 100);
          rawPension = js_mul (field_or_zero (grossIncome input)) pensionRate
      in Math_min (if isFinite rawPension then rawPension else Fin 0)
                  (or_infinity (statutoryPensionAnnualCap input)))"

definition uncappedDeductions_of :: "TaxComputationInput \<Rightarrow> number" where
  "uncappedDeductions_of input =
     Math_max (Fin 0)
       (js_add (js_add (field_or_zero (standardDeduction input))
                       (field_or_zero (additionalDeductions input)))
               (or_zero (pension_of input)))"

definition totalDeductions_of :: "TaxComputationInput \<Rightarrow> number" where
  "totalDeductions_of input =
     Math_min (field_or_zero (grossIncome input)) (uncappedDeductions_of input)"

definition taxableIncome_of :: "TaxComputationInput \<Rightarrow> number" where
  "taxableIncome_of input =
     Math_max (Fin 0) (js_sub (field_or_zero (grossIncome input)) (totalDeductions_of input))"

definition calculateProgressiveTax :: "TaxComputationInput \<Rightarrow> TaxComputationResult" where
  "calculateProgressiveTax input =
     (let taxable = taxableIncome_of input;
          sorted = js_sort compare_min (brackets input);
          v = bracket_loop taxable sorted loop_init;
          effective =
            (if field_gt_zero (grossIncome input)
             then js_mul (js_div (v_taxOwed v) (the (grossIncome input))) (Fin 100)
             else Fin 0)
      in \<lparr> deductions = totalDeductions_of input,
           taxableIncome = taxable,
           taxOwed = v_taxOwed v,
           effectiveRate = effective,
           marginalRate = v_marginalRate v,
           statutoryPension = or_zero (pension_of input),
           breakdown = v_breakdown v,
           deductionsCapped = js_lt (totalDeductions_of input) (uncappedDeductions_of input),
           uncappedDeductions = uncappedDeductions_of input \<rparr>)"





section \<open>The worked example\<close>

definition example_brackets :: "TaxBracket list" where
  "example_brackets =
     [\<lparr> income_bracket_min = Fin 0, income_bracket_max = Some (Fin 10000), tax_rate = Fin 10 \<rparr>,
      \<lparr> income_bracket_min = Fin 10000, income_bracket_max = None, tax_rate = Fin 20 \<rparr>]"

definition example_input :: "TaxBracket list \<Rightarrow> TaxComputationInput" where
  "example_input bs =
     \<lparr> grossIncome = Some (Fin 15000),
       additionalDeductions = Some (Fin 0),
       standardDeduction = Some (Fin 0),
       brackets = bs,
       statutoryPensionRatePercent = Some (Fin 0),
       statutoryPensionAnnualCap = None \<rparr>"

definition example_result :: TaxComputationResult where
  "example_result =
     \<lparr> deductions = Fin 0,
       taxableIncome = Fin 15000,
       taxOwed = Fin 2000,
       effectiveRate = Fin (2000 / 15000 * 100),
       marginalRate = Fin 20,
       statutoryPension = Fin 0,
       breakdown =
         [\<lparr> income_bracket_min = Fin 0, income_bracket_max = Some (Fin 10000),
             tax_rate = Fin 10,
             taxable_at_this_bracket = Fin 10000, tax_at_this_bracket = Fin 1000 \<rparr>,
          \<lparr> income_bracket_min = Fin 10000, income_bracket_max = None,
             tax_rate = Fin 20,
             taxable_at_this_bracket = Fin 5000, tax_at_this_bracket = Fin 1000 \<rparr>],
       deductionsCapped = False,
       uncappedDeductions = Fin 0 \<rparr>"

section \<open>Observations on inputs and results\<close>

text \<open>The sum of the breakdown's taxes, added up from \<open>0\<close> in the list's order.\<close>

definition breakdown_tax_sum :: "BreakdownEntry list \<Rightarrow> number" where
  "breakdown_tax_sum es = foldl js_add (Fin 0) (map tax_at_this_bracket es)"

text \<open>An input with no pension fields, for the concrete cases below.\<close>

definition plain_input ::
  "number option \<Rightarrow> number option \<Rightarrow> number option \<Rightarrow> TaxBracket list \<Rightarrow> TaxComputationInput"
  where
  "plain_input gross standard additional bs =
     \<lparr> grossIncome = gross,
       additionalDeductions = additional,
       standardDeduction = standard,
       brackets = bs,
       statutoryPensionRatePercent = None,
       statutoryPensionAnnualCap = None \<rparr>"


definition bracket :: "number \<Rightarrow> number option \<Rightarrow> number \<Rightarrow> TaxBracket" where
  "bracket lo hi rate = \<lparr> income_bracket_min = lo, income_bracket_max = hi, tax_rate = rate \<rparr>"

text \<open>
  Where the comparator is a consistent ordering. On numbers other than NaN the sign of
  \<^verbatim>\<open>a - b\<close> orders \<open>-Infinity\<close> below the finite numbers below \<open>Infinity\<close>
  (\<^verbatim>\<open>Infinity - Infinity\<close> is NaN and counts as 0, that is, as equal); \<open>min_key\<close>
  embeds that order in a linear order.
\<close>

fun min_key :: "number \<Rightarrow> nat \<times> real" where
  "min_key NegInf = (0, 0)"
| "min_key (Fin x) = (1, x)"
| "min_key PosInf = (2, 0)"
| "min_key NaN = (3, 0)"

definition bracket_key :: "TaxBracket \<Rightarrow> nat \<times> real" where
  "bracket_key b = min_key (income_bracket_min b)"





section \<open>Facts about the deduction part\<close>

lemmas deduction_defs =
  pension_of_def uncappedDeductions_of_def totalDeductions_of_def taxableIncome_of_def
  field_or_zero_def or_zero_def or_infinity_def Math_min_def Math_max_def js_sub_def

lemmas loop_defs =
  js_sort_def compare_min_def loop_init_def bracket_step_def bracket_taxed_def
  taxableAtThisBracket_def js_gt_def

lemmas concrete_defs =
  calculateProgressiveTax_def plain_input_def bracket_def deduction_defs loop_defs
  field_gt_zero_def js_le_def Let_def

lemma calc_deductions: "deductions (calculateProgressiveTax i) = totalDeductions_of i"
  and calc_taxableIncome: "taxableIncome (calculateProgressiveTax i) = taxableIncome_of i"
  and calc_uncapped: "uncappedDeductions (calculateProgressiveTax i) = uncappedDeductions_of i"
  and calc_capped: "deductionsCapped (calculateProgressiveTax i) =
        js_lt (totalDeductions_of i) (uncappedDeductions_of i)"
  by (simp_all add: calculateProgressiveTax_def Let_def)

lemma calc_loop:
  "taxOwed (calculateProgressiveTax i) =
     v_taxOwed (bracket_loop (taxableIncome_of i) (js_sort compare_min (brackets i)) loop_init)"
  "marginalRate (calculateProgressiveTax i) =
     v_marginalRate (bracket_loop (taxableIncome_of i) (js_sort compare_min (brackets i)) loop_init)"
  "breakdown (calculateProgressiveTax i) =
     v_breakdown (bracket_loop (taxableIncome_of i) (js_sort compare_min (brackets i)) loop_init)"
  by (simp_all add: calculateProgressiveTax_def Let_def)

lemma js_lt_NaN_right: "\<not> js_lt x NaN"
  by (cases x) simp_all

lemma js_lt_Math_min: "js_lt (Math_min a b) b = js_lt a b"
  by (cases a; cases b) (auto simp: Math_min_def)

lemma Math_max_zero_cases:
  "Math_max (Fin 0) s = NaN \<or> Math_max (Fin 0) s = PosInf
   \<or> (\<exists>y. 0 \<le> y \<and> Math_max (Fin 0) s = Fin y)"
  by (cases s) (auto simp: Math_max_def)

lemma taxable_nonpositive_core:
  assumes "js_le g (Fin 0)"
    and "u = NaN \<or> u = PosInf \<or> (\<exists>y. 0 \<le> y \<and> u = Fin y)"
  shows "Math_max (Fin 0) (js_sub g (Math_min g u)) = Fin 0
       \<or> Math_max (Fin 0) (js_sub g (Math_min g u)) = NaN"
  using assms by (cases g; cases u) (auto simp: js_le_def Math_min_def Math_max_def js_sub_def)

lemma taxable_nonpositive_gross:
  assumes "grossIncome i = Some g" and "js_le g (Fin 0)"
  shows "taxableIncome_of i = Fin 0 \<or> taxableIncome_of i = NaN"
proof -
  have g: "field_or_zero (grossIncome i) = g"
    using assms by (cases g) (auto simp: field_or_zero_def or_zero_def js_le_def)
  have "uncappedDeductions_of i = NaN \<or> uncappedDeductions_of i = PosInf
      \<or> (\<exists>y. 0 \<le> y \<and> uncappedDeductions_of i = Fin y)"
    unfolding uncappedDeductions_of_def by (rule Math_max_zero_cases)
  with assms(2) show ?thesis
    unfolding taxableIncome_of_def totalDeductions_of_def g by (rule taxable_nonpositive_core)
qed

lemma field_or_zero_missing:
  "f = None \<or> f = Some NaN \<Longrightarrow> field_or_zero f = Fin 0"
  by (auto simp: field_or_zero_def or_zero_def)



lemmas deduction_chain =
  pension_of_def uncappedDeductions_of_def totalDeductions_of_def taxableIncome_of_def

lemma field_or_zero_gross: "field_or_zero (Some (Fin g)) = Fin g"
  by (simp add: field_or_zero_def or_zero_def)










lemma min_with_uncapped:
  assumes "Math_max (Fin 0) s \<noteq> NaN" and "g \<le> 0"
  shows "Math_min (Fin g) (Math_max (Fin 0) s) = Fin g"
  using assms by (cases s) (auto simp: Math_min_def Math_max_def)

section \<open>Facts about the sort and the loop\<close>

lemma set_sort_insert: "set (sort_insert cmp x ys) = insert x (set ys)"
  by (induction ys) auto

lemma set_js_sort: "set (js_sort cmp xs) = set xs"
  by (induction xs) (simp_all add: js_sort_def set_sort_insert)

lemma bracket_loop_untaxed:
  "\<forall>b\<in>set bs. \<not> bracket_taxed t b \<Longrightarrow> bracket_loop t bs v = v"
  by (induction bs arbitrary: v) (simp_all add: bracket_step_def)

lemma not_taxed_at_zero:
  assumes "t = Fin 0 \<or> t = NaN" and "\<not> js_lt (income_bracket_min b) (Fin 0)"
  shows "\<not> bracket_taxed t b"
  using assms by (auto simp: bracket_taxed_def js_gt_def js_lt_NaN_right)

lemma loop_at_zero:
  assumes "t = Fin 0 \<or> t = NaN"
    and "\<forall>b\<in>set bs. \<not> js_lt (income_bracket_min b) (Fin 0)"
  shows "bracket_loop t (js_sort compare_min bs) loop_init = loop_init"
  using assms by (intro bracket_loop_untaxed) (simp add: set_js_sort not_taxed_at_zero)

lemma bracket_step_sum:
  "v_taxOwed v = breakdown_tax_sum (v_breakdown v) \<Longrightarrow>
   v_taxOwed (bracket_step t b v) = breakdown_tax_sum (v_breakdown (bracket_step t b v))"
  by (simp add: bracket_step_def breakdown_tax_sum_def Let_def)

lemma bracket_loop_sum:
  "v_taxOwed v = breakdown_tax_sum (v_breakdown v) \<Longrightarrow>
   v_taxOwed (bracket_loop t bs v) = breakdown_tax_sum (v_breakdown (bracket_loop t bs v))"
  by (induction bs arbitrary: v) (simp_all add: bracket_step_sum)

text \<open>The sort, where no minimum is NaN, is the stable sort by \<open>bracket_key\<close>.\<close>

lemma inj_min_key: "min_key a = min_key b \<Longrightarrow> a = b"
  by (cases a; cases b) simp_all

lemma compare_positive_iff:
  assumes "a \<noteq> NaN" "b \<noteq> NaN"
  shows "js_gt (js_sub a b) (Fin 0) = (min_key b < min_key a)"
  using assms by (cases a; cases b) (simp_all add: js_gt_def js_sub_def)


lemma sort_insert_insort_key:
  assumes "income_bracket_min x \<noteq> NaN" "\<forall>b\<in>set ys. income_bracket_min b \<noteq> NaN"
  shows "sort_insert compare_min x ys = insort_key bracket_key x ys"
  using assms
  by (induction ys) (auto simp: compare_min_def compare_positive_iff bracket_key_def not_less)

lemma js_sort_sort_key:
  assumes "\<forall>b\<in>set bs. income_bracket_min b \<noteq> NaN"
  shows "js_sort compare_min bs = sort_key bracket_key bs"
  using assms
proof (induction bs)
  case Nil
  then show ?case by (simp add: js_sort_def)
next
  case (Cons b bs)
  then have "js_sort compare_min bs = sort_key bracket_key bs" by simp
  moreover have "js_sort compare_min (b # bs) = sort_insert compare_min b (js_sort compare_min bs)"
    by (simp add: js_sort_def)
  ultimately show ?case
    using Cons.prems by (simp add: sort_insert_insort_key)
qed

lemma filter_same_key:
  assumes "distinct (map f xs)" "k \<in> set xs"
  shows "filter (\<lambda>x. f k = f x) xs = [k]"
  using assms
proof (induction xs)
  case Nil
  then show ?case by simp
next
  case (Cons x xs)
  show ?case
  proof (cases "k = x")
    case True
    have "filter (\<lambda>y. f x = f y) xs = []"
      using Cons.prems(1) by (auto simp: filter_empty_conv)
    with True show ?thesis by simp
  next
    case False
    with Cons.prems(2) have kx: "k \<in> set xs" by simp
    have "f x \<notin> f ` set xs"
      using Cons.prems(1) by simp
    with kx have "f k \<noteq> f x"
      by (metis imageI)
    with kx Cons show ?thesis by simp
  qed
qed

lemma sort_key_permutation:
  assumes "mset ys = mset xs" "distinct (map f xs)"
  shows "sort_key f ys = sort_key f xs"
proof (rule properties_for_sort_key)
  show "mset (sort_key f xs) = mset ys"
    using assms(1) by simp
  show "sorted (map f (sort_key f xs))"
    by simp
  fix k assume "k \<in> set (sort_key f xs)"
  then have k: "k \<in> set xs" by simp
  have "mset (map f ys) = mset (map f xs)"
    using assms(1) by simp
  then have dy: "distinct (map f ys)"
    using assms(2) by (metis mset_eq_imp_distinct_iff)
  have ky: "k \<in> set ys"
    using k assms(1) by (metis mset_eq_setD)
  have "filter (\<lambda>x. f k = f x) (sort_key f xs) = filter (\<lambda>x. f k = f x) xs"
    using sort_key_stable [of f "f k" xs] by (simp add: eq_commute)
  then show "filter (\<lambda>x. f k = f x) (sort_key f xs) = filter (\<lambda>x. f k = f x) ys"
    by (simp add: filter_same_key [OF assms(2) k] filter_same_key [OF dy ky])
qed

lemma distinct_bracket_key:
  assumes "distinct (map income_bracket_min bs)"
  shows "distinct (map bracket_key bs)"
proof -
  have "map bracket_key bs = map min_key (map income_bracket_min bs)"
    by (simp add: bracket_key_def)
  moreover have "inj_on min_key (set (map income_bracket_min bs))"
    by (rule inj_onI) (rule inj_min_key)
  ultimately show ?thesis
    using assms by (simp only: distinct_map)
qed

























section \<open>The claims\<close>

text \<open>
  C1. With brackets \<open>[(0, 10000, 10%), (10000, unbounded, 20%)]\<close>, no deductions, pension
  rate 0 and gross income 15000 the function returns taxable income 15000, a breakdown of
  10000 taxed at 10% for 1000 and 5000 taxed at 20% for 1000, tax owed 2000, marginal
  rate 20 and effective rate \<open>2000 / 15000 * 100\<close>; the other fields of the result are
  as in \<open>example_result\<close>.
\<close>

theorem C1_worked_example:
  "calculateProgressiveTax (example_input example_brackets) = example_result"
  by (simp add: calculateProgressiveTax_def example_input_def example_brackets_def
      example_result_def deduction_defs loop_defs field_gt_zero_def Let_def)








text \<open>
  C4, as stated, fails when the gross income is NaN (or absent): the function reads it as
  0, so with gross income NaN and standard deduction 5 the deductions are 0, the uncapped
  deductions are 5 and \<open>deductionsCapped\<close> is true, while \<^verbatim>\<open>5 > NaN\<close> is false.
\<close>

theorem C4_counterexample:
  "grossIncome (plain_input (Some NaN) (Some (Fin 5)) (Some (Fin 0)) []) = Some NaN
   \<and> deductionsCapped (calculateProgressiveTax
        (plain_input (Some NaN) (Some (Fin 5)) (Some (Fin 0)) []))
   \<and> uncappedDeductions (calculateProgressiveTax
        (plain_input (Some NaN) (Some (Fin 5)) (Some (Fin 0)) [])) = Fin 5
   \<and> deductions (calculateProgressiveTax
        (plain_input (Some NaN) (Some (Fin 5)) (Some (Fin 0)) [])) = Fin 0
   \<and> \<not> js_gt (uncappedDeductions (calculateProgressiveTax
        (plain_input (Some NaN) (Some (Fin 5)) (Some (Fin 0)) []))) NaN"
  by (simp add: concrete_defs)

text \<open>
  C4, amended. For every input, \<open>deductionsCapped\<close> is true if and only if the uncapped
  deductions exceed the gross income as the function reads it, \<^verbatim>\<open>grossIncome || 0\<close>;
  and that is equivalent to the deductions being less than the uncapped deductions. What
  the function reads is the gross income itself when that is a number other than NaN,
  so that the claim holds as it is stated there, and 0 when it is NaN or absent. The
  comparisons are JavaScript's.
\<close>

theorem C4_deductionsCapped:
  "(deductionsCapped (calculateProgressiveTax i) =
      js_gt (uncappedDeductions (calculateProgressiveTax i)) (field_or_zero (grossIncome i)))
   \<and> (js_gt (uncappedDeductions (calculateProgressiveTax i)) (field_or_zero (grossIncome i)) =
      js_lt (deductions (calculateProgressiveTax i))
        (uncappedDeductions (calculateProgressiveTax i)))
   \<and> (grossIncome i = Some g \<and> g \<noteq> NaN \<longrightarrow>
      deductionsCapped (calculateProgressiveTax i) =
        js_gt (uncappedDeductions (calculateProgressiveTax i)) g)
   \<and> (grossIncome i = None \<or> grossIncome i = Some NaN \<longrightarrow>
      deductionsCapped (calculateProgressiveTax i) =
        js_gt (uncappedDeductions (calculateProgressiveTax i)) (Fin 0))"
proof -
  have c: "deductionsCapped (calculateProgressiveTax i) =
      js_gt (uncappedDeductions (calculateProgressiveTax i)) (field_or_zero (grossIncome i))"
    by (simp add: calc_deductions calc_uncapped calc_capped totalDeductions_of_def
        js_lt_Math_min js_gt_def)
  have d: "js_gt (uncappedDeductions (calculateProgressiveTax i)) (field_or_zero (grossIncome i))
      = js_lt (deductions (calculateProgressiveTax i))
          (uncappedDeductions (calculateProgressiveTax i))"
    by (simp add: calc_deductions calc_uncapped totalDeductions_of_def js_lt_Math_min js_gt_def)
  have "field_or_zero (grossIncome i) = g" if "grossIncome i = Some g" "g \<noteq> NaN"
    using that by (auto simp: field_or_zero_def or_zero_def)
  moreover have "field_or_zero (grossIncome i) = Fin 0"
    if "grossIncome i = None \<or> grossIncome i = Some NaN"
    using that by (rule field_or_zero_missing)
  ultimately show ?thesis
    using c d by metis
qed

theorem C4_witness:
  "deductionsCapped (calculateProgressiveTax
      (plain_input (Some (Fin 15000)) (Some (Fin 20000)) (Some (Fin 0)) []))
     = js_gt (uncappedDeductions (calculateProgressiveTax
         (plain_input (Some (Fin 15000)) (Some (Fin 20000)) (Some (Fin 0)) []))) (Fin 15000)
   \<and> deductionsCapped (calculateProgressiveTax
      (plain_input (Some NaN) (Some (Fin 5)) (Some (Fin 0)) []))
     = js_gt (uncappedDeductions (calculateProgressiveTax
         (plain_input (Some NaN) (Some (Fin 5)) (Some (Fin 0)) []))) (Fin 0)"
proof -
  let ?X = "plain_input (Some (Fin 15000)) (Some (Fin 20000)) (Some (Fin 0)) []"
  let ?Y = "plain_input (Some NaN) (Some (Fin 5)) (Some (Fin 0)) []"
  have "grossIncome ?X = Some (Fin 15000)" "Fin 15000 \<noteq> NaN" "grossIncome ?Y = Some NaN"
    by (simp_all add: plain_input_def)
  then show ?thesis
    using C4_deductionsCapped [of ?X "Fin 15000"] C4_deductionsCapped [of ?Y NaN] by blast
qed

text \<open>
  C5. The taxes of the breakdown's entries, added up, are exactly the tax owed: the two
  are the same number, or both NaN (a NaN or infinite rate, or infinite amounts of
  opposite sign).
\<close>

theorem C5_breakdown_sum:
  "breakdown_tax_sum (breakdown (calculateProgressiveTax i)) = taxOwed (calculateProgressiveTax i)"
proof -
  have "v_taxOwed loop_init = breakdown_tax_sum (v_breakdown loop_init)"
    by (simp add: loop_init_def breakdown_tax_sum_def)
  then show ?thesis
    by (simp add: calc_loop bracket_loop_sum)
qed

text \<open>
  C6, as stated, fails. The loop taxes a bracket as soon as the taxable income exceeds its
  minimum, so a bracket that starts below zero is taxed at gross income 0: with the one
  bracket \<open>(-100, 100, 10%)\<close> the tax owed is 10 and the breakdown has an entry. And with
  standard deduction \<open>Infinity\<close> and additional deductions \<open>-Infinity\<close> the deductions at
  gross income 0 are NaN, not 0.
\<close>

theorem C6_counterexample:
  "taxOwed (calculateProgressiveTax
      (plain_input (Some (Fin 0)) (Some (Fin 0)) (Some (Fin 0)) [bracket (Fin (-100)) (Some (Fin 100)) (Fin 10)]))
     = Fin 10
   \<and> breakdown (calculateProgressiveTax
      (plain_input (Some (Fin 0)) (Some (Fin 0)) (Some (Fin 0)) [bracket (Fin (-100)) (Some (Fin 100)) (Fin 10)]))
     \<noteq> []
   \<and> deductions (calculateProgressiveTax
      (plain_input (Some (Fin 0)) (Some PosInf) (Some NegInf) [])) = NaN"
  by (simp add: concrete_defs)

text \<open>
  C6, amended. For every input with a gross income \<open>\<le> 0\<close> the effective rate is 0, and
  when no bracket starts below 0 the tax owed is 0 and the breakdown is empty. For every
  input with gross income 0 the deductions are 0, unless the uncapped deductions are NaN.
\<close>

theorem C6_zero_or_negative_gross:
  "(grossIncome i = Some g \<and> js_le g (Fin 0) \<longrightarrow>
      effectiveRate (calculateProgressiveTax i) = Fin 0)
   \<and> (grossIncome i = Some g \<and> js_le g (Fin 0)
       \<and> (\<forall>b\<in>set (brackets i). \<not> js_lt (income_bracket_min b) (Fin 0)) \<longrightarrow>
      taxOwed (calculateProgressiveTax i) = Fin 0
    \<and> breakdown (calculateProgressiveTax i) = [])
   \<and> (grossIncome i = Some (Fin 0) \<and> uncappedDeductions (calculateProgressiveTax i) \<noteq> NaN \<longrightarrow>
      deductions (calculateProgressiveTax i) = Fin 0)"
proof (intro conjI impI)
  assume "grossIncome i = Some g \<and> js_le g (Fin 0)"
  then have "\<not> field_gt_zero (grossIncome i)"
    by (simp add: field_gt_zero_def js_gt_def js_le_def)
  then show "effectiveRate (calculateProgressiveTax i) = Fin 0"
    by (simp add: calculateProgressiveTax_def Let_def)
next
  assume a: "grossIncome i = Some g \<and> js_le g (Fin 0)
       \<and> (\<forall>b\<in>set (brackets i). \<not> js_lt (income_bracket_min b) (Fin 0))"
  then have "taxableIncome_of i = Fin 0 \<or> taxableIncome_of i = NaN"
    by (simp add: taxable_nonpositive_gross)
  moreover from a have "\<forall>b\<in>set (brackets i). \<not> js_lt (income_bracket_min b) (Fin 0)"
    by simp
  ultimately have "bracket_loop (taxableIncome_of i) (js_sort compare_min (brackets i))
      loop_init = loop_init"
    by (rule loop_at_zero)
  then show "taxOwed (calculateProgressiveTax i) = Fin 0"
    and "breakdown (calculateProgressiveTax i) = []"
    by (simp_all add: calc_loop loop_init_def)
next
  assume a: "grossIncome i = Some (Fin 0)
      \<and> uncappedDeductions (calculateProgressiveTax i) \<noteq> NaN"
  then have "Math_min (Fin 0) (uncappedDeductions_of i) = Fin 0"
    unfolding calc_uncapped uncappedDeductions_of_def by (intro min_with_uncapped) simp_all
  then show "deductions (calculateProgressiveTax i) = Fin 0"
    using a by (simp add: calc_deductions totalDeductions_of_def field_or_zero_gross)
qed

theorem C6_witness:
  "js_le (Fin 0) (Fin 0)
   \<and> \<not> js_lt (income_bracket_min (bracket (Fin 0) (Some (Fin 10000)) (Fin 10))) (Fin 0)
   \<and> \<not> js_lt (income_bracket_min (bracket (Fin 10000) None (Fin 20))) (Fin 0)
   \<and> uncappedDeductions (calculateProgressiveTax
      (plain_input (Some (Fin 0)) (Some (Fin 500)) None example_brackets)) \<noteq> NaN
   \<and> effectiveRate (calculateProgressiveTax
      (plain_input (Some (Fin 0)) (Some (Fin 500)) None example_brackets)) = Fin 0
   \<and> taxOwed (calculateProgressiveTax
      (plain_input (Some (Fin 0)) (Some (Fin 500)) None example_brackets)) = Fin 0
   \<and> breakdown (calculateProgressiveTax
      (plain_input (Some (Fin 0)) (Some (Fin 500)) None example_brackets)) = []
   \<and> deductions (calculateProgressiveTax
      (plain_input (Some (Fin 0)) (Some (Fin 500)) None example_brackets)) = Fin 0"
proof -
  let ?X = "plain_input (Some (Fin 0)) (Some (Fin 500)) None example_brackets"
  have g: "grossIncome ?X = Some (Fin 0)" "js_le (Fin 0) (Fin 0)"
    by (simp_all add: plain_input_def js_le_def)
  have b: "\<forall>b\<in>set (brackets ?X). \<not> js_lt (income_bracket_min b) (Fin 0)"
    by (simp add: plain_input_def example_brackets_def)
  have u: "uncappedDeductions (calculateProgressiveTax ?X) \<noteq> NaN"
    by (simp add: calc_uncapped plain_input_def deduction_defs)
  from g b u show ?thesis
    using C6_zero_or_negative_gross [of ?X "Fin 0"] by (simp add: bracket_def)
qed

text \<open>
  C7, as stated, fails when two brackets have the same minimum: the sort is by minimum
  only and is stable, so such brackets stay in their input order, and the order shows in
  the breakdown and in the marginal rate (the last bracket taxed). With the brackets
  \<open>(0, 10000, 10%)\<close> and \<open>(0, 10000, 20%)\<close> and gross income 5000 the marginal rate is
  20, and 10 when the two are swapped.
\<close>

theorem C7_counterexample:
  "mset [bracket (Fin 0) (Some (Fin 10000)) (Fin 20), bracket (Fin 0) (Some (Fin 10000)) (Fin 10)]
     = mset [bracket (Fin 0) (Some (Fin 10000)) (Fin 10), bracket (Fin 0) (Some (Fin 10000)) (Fin 20)]
   \<and> marginalRate (calculateProgressiveTax (plain_input (Some (Fin 5000)) (Some (Fin 0)) (Some (Fin 0))
        [bracket (Fin 0) (Some (Fin 10000)) (Fin 10), bracket (Fin 0) (Some (Fin 10000)) (Fin 20)]))
     = Fin 20
   \<and> marginalRate (calculateProgressiveTax (plain_input (Some (Fin 5000)) (Some (Fin 0)) (Some (Fin 0))
        [bracket (Fin 0) (Some (Fin 10000)) (Fin 20), bracket (Fin 0) (Some (Fin 10000)) (Fin 10)]))
     = Fin 10
   \<and> calculateProgressiveTax (plain_input (Some (Fin 5000)) (Some (Fin 0)) (Some (Fin 0))
        [bracket (Fin 0) (Some (Fin 10000)) (Fin 20), bracket (Fin 0) (Some (Fin 10000)) (Fin 10)])
     \<noteq> calculateProgressiveTax (plain_input (Some (Fin 5000)) (Some (Fin 0)) (Some (Fin 0))
        [bracket (Fin 0) (Some (Fin 10000)) (Fin 10), bracket (Fin 0) (Some (Fin 10000)) (Fin 20)])"
proof -
  have a: "marginalRate (calculateProgressiveTax (plain_input (Some (Fin 5000)) (Some (Fin 0)) (Some (Fin 0))
        [bracket (Fin 0) (Some (Fin 10000)) (Fin 10), bracket (Fin 0) (Some (Fin 10000)) (Fin 20)]))
     = Fin 20"
    by (simp add: concrete_defs)
  have b: "marginalRate (calculateProgressiveTax (plain_input (Some (Fin 5000)) (Some (Fin 0)) (Some (Fin 0))
        [bracket (Fin 0) (Some (Fin 10000)) (Fin 20), bracket (Fin 0) (Some (Fin 10000)) (Fin 10)]))
     = Fin 10"
    by (simp add: concrete_defs)
  from a b have "calculateProgressiveTax (plain_input (Some (Fin 5000)) (Some (Fin 0)) (Some (Fin 0))
        [bracket (Fin 0) (Some (Fin 10000)) (Fin 20), bracket (Fin 0) (Some (Fin 10000)) (Fin 10)])
     \<noteq> calculateProgressiveTax (plain_input (Some (Fin 5000)) (Some (Fin 0)) (Some (Fin 0))
        [bracket (Fin 0) (Some (Fin 10000)) (Fin 10), bracket (Fin 0) (Some (Fin 10000)) (Fin 20)])"
    by auto
  with a b show ?thesis by simp
qed

text \<open>
  C7, amended. For every input whose bracket minima are pairwise distinct and not NaN,
  and every permutation of its brackets list, the function returns the same result
  (every field, the breakdown entry for entry) as on the original input. In particular
  the brackets \<open>[(10000, unbounded, 20%), (0, 10000, 10%)]\<close> give the same result as
  their sorted version.
\<close>

theorem C7_permutation:
  assumes "mset bs = mset (brackets i)"
    and "\<forall>b\<in>set (brackets i). income_bracket_min b \<noteq> NaN"
    and "distinct (map income_bracket_min (brackets i))"
  shows "calculateProgressiveTax (i\<lparr>brackets := bs\<rparr>) = calculateProgressiveTax i
       \<and> calculateProgressiveTax (example_input
            [bracket (Fin 10000) None (Fin 20), bracket (Fin 0) (Some (Fin 10000)) (Fin 10)])
         = calculateProgressiveTax (example_input
            [bracket (Fin 0) (Some (Fin 10000)) (Fin 10), bracket (Fin 10000) None (Fin 20)])"
proof
  show "calculateProgressiveTax (example_input
            [bracket (Fin 10000) None (Fin 20), bracket (Fin 0) (Some (Fin 10000)) (Fin 10)])
         = calculateProgressiveTax (example_input
            [bracket (Fin 0) (Some (Fin 10000)) (Fin 10), bracket (Fin 10000) None (Fin 20)])"
    by (simp add: calculateProgressiveTax_def example_input_def bracket_def deduction_defs
        loop_defs field_gt_zero_def Let_def)
  have "set bs = set (brackets i)"
    using assms(1) by (rule mset_eq_setD)
  then have "js_sort compare_min bs = sort_key bracket_key bs"
    using assms(2) by (intro js_sort_sort_key) simp
  also have "\<dots> = sort_key bracket_key (brackets i)"
    using assms(1) distinct_bracket_key [OF assms(3)] by (rule sort_key_permutation)
  also have "\<dots> = js_sort compare_min (brackets i)"
    using assms(2) by (simp add: js_sort_sort_key)
  finally show "calculateProgressiveTax (i\<lparr>brackets := bs\<rparr>) = calculateProgressiveTax i"
    by (simp add: calculateProgressiveTax_def deduction_chain Let_def)
qed

theorem C7_witness:
  "mset (rev example_brackets) = mset example_brackets
   \<and> calculateProgressiveTax (example_input (rev example_brackets))
     = calculateProgressiveTax (example_input example_brackets)"
  using C7_permutation [of "rev example_brackets" "example_input example_brackets"]
  by (simp add: example_input_def example_brackets_def)







text \<open>
  C10, as stated, fails when the deductions add up to NaN: with gross income \<open>-5\<close>,
  standard deduction \<open>Infinity\<close> and additional deductions \<open>-Infinity\<close> the uncapped
  deductions are \<^verbatim>\<open>Math.max(0, NaN)\<close>, which is NaN and not clamped, and both the
  deductions and the taxable income are NaN.
\<close>

theorem C10_counterexample:
  "deductions (calculateProgressiveTax
      (plain_input (Some (Fin (-5))) (Some PosInf) (Some NegInf) [])) = NaN
   \<and> taxableIncome (calculateProgressiveTax
      (plain_input (Some (Fin (-5))) (Some PosInf) (Some NegInf) [])) = NaN
   \<and> uncappedDeductions (calculateProgressiveTax
      (plain_input (Some (Fin (-5))) (Some PosInf) (Some NegInf) [])) = NaN"
  by (simp add: concrete_defs)

text \<open>
  C10, amended. For every input with a finite gross income below 0 whose uncapped
  deductions are not NaN, the deductions are the gross income itself, a negative value,
  and the taxable income is 0.
\<close>

theorem C10_negative_gross:
  assumes "grossIncome i = Some (Fin g)" and "g < 0"
    and "uncappedDeductions (calculateProgressiveTax i) \<noteq> NaN"
  shows "deductions (calculateProgressiveTax i) = Fin g
       \<and> taxableIncome (calculateProgressiveTax i) = Fin 0"
proof -
  have "Math_min (Fin g) (uncappedDeductions_of i) = Fin g"
    using assms(2,3) unfolding calc_uncapped uncappedDeductions_of_def
    by (intro min_with_uncapped) simp_all
  then have d: "totalDeductions_of i = Fin g"
    using assms(1) by (simp add: totalDeductions_of_def field_or_zero_gross)
  have "taxableIncome_of i = Fin 0"
    using assms(1) by (simp add: taxableIncome_of_def d field_or_zero_gross Math_max_def
        js_sub_def)
  with d show ?thesis
    by (simp add: calc_deductions calc_taxableIncome)
qed

theorem C10_witness:
  "(-5 :: real) < 0
   \<and> uncappedDeductions (calculateProgressiveTax
        (plain_input (Some (Fin (-5))) (Some (Fin 300)) None example_brackets)) \<noteq> NaN
   \<and> deductions (calculateProgressiveTax
        (plain_input (Some (Fin (-5))) (Some (Fin 300)) None example_brackets)) = Fin (-5)
   \<and> taxableIncome (calculateProgressiveTax
        (plain_input (Some (Fin (-5))) (Some (Fin 300)) None example_brackets)) = Fin 0"
proof -
  let ?X = "plain_input (Some (Fin (-5))) (Some (Fin 300)) None example_brackets"
  have g: "grossIncome ?X = Some (Fin (-5))"
    by (simp add: plain_input_def)
  have u: "uncappedDeductions (calculateProgressiveTax ?X) \<noteq> NaN"
    by (simp add: calc_uncapped plain_input_def deduction_defs)
  from u show ?thesis
    using C10_negative_gross [OF g _ u] by simp
qed

end
